theory Spec2Isabelle
  imports Complex_Main "HOL-Library.Signed_Division"
begin

section \<open>Type descriptors\<close>

text \<open>
  The element kinds named by \<^verbatim>\<open>init.cpp\<close> and \<^verbatim>\<open>switch.cpp\<close>. The enumeration itself is
  declared outside the two files; the constructors below are the enumerators the two
  files mention.
\<close>

datatype VarType = Bool | Int32 | UInt32 | Int64 | UInt64 | Pointer | Float16 | Float32 | Float64

text \<open>
  \<^verbatim>\<open>JitBackend::None\<close> (switch.cpp) and \<^verbatim>\<open>JitBackend::Invalid\<close> (init.cpp) both stand
  for "not JIT-compiled" and are one constructor here.
\<close>

datatype JitBackend = JitNone | CUDA | LLVM

text \<open>
  Modelled from the spec: each shape entry is either a fixed extent or the sentinel
  \<^verbatim>\<open>DRJIT_DYNAMIC\<close> ("dynamic length, determined at run time"); the macro's numeric value
  is not part of the two files.
\<close>

datatype extent = Fixed nat | DRJIT_DYNAMIC

record ArrayMeta =
  backend :: JitBackend
  type :: VarType
  ndim :: nat
  is_vector :: bool
  is_complex :: bool
  is_quaternion :: bool
  is_matrix :: bool
  is_class :: bool
  shape :: "extent list"

text \<open>
  The function pointers of \<^verbatim>\<open>ArraySupplement\<close> that the code tests for presence before it
  calls them (\<^verbatim>\<open>s.cast\<close>, \<^verbatim>\<open>s.init_data\<close>, \<^verbatim>\<open>s_arg.data\<close>, \<^verbatim>\<open>s.init_const\<close>,
  \<^verbatim>\<open>counter_s.init_counter\<close>): \<open>True\<close> when the pointer is not null.
\<close>

record Caps =
  cast :: bool
  init_data :: bool
  data :: bool
  init_const :: bool
  init_counter :: bool

text \<open>
  A Python type object. A Dr.Jit array type carries its name (type objects are compared
  by identity), its \<^verbatim>\<open>ArrayMeta\<close>, its element type \<^verbatim>\<open>s.value\<close> and its capabilities.
  A record type exposes \<^verbatim>\<open>DRJIT_STRUCT\<close>, an ordered mapping from field names to types.
\<close>

datatype ty =
    PyBool_Type
  | PyLong_Type
  | PyFloat_Type
  | PyOther_Type string
  | DrJitType string ArrayMeta ty Caps
  | StructType string "(string \<times> ty) list"



text \<open>
  \<^verbatim>\<open>s.shape[i]\<close>: the shape is a fixed-length C array, so every index the code reads
  exists; entries past \<^verbatim>\<open>ndim\<close> read as 0.
\<close>

definition shape_at :: "ArrayMeta \<Rightarrow> nat \<Rightarrow> extent" where
  "shape_at m i = (if i < length (shape m) then shape m ! i else Fixed 0)"

section \<open>Python objects\<close>

text \<open>
  The objects the constructors and generators handle: Python scalars, sequences (with
  \<^verbatim>\<open>sq_length\<close> and \<^verbatim>\<open>sq_item\<close>), plain iterables (\<^verbatim>\<open>tp_iter\<close> only), instances of
  Dr.Jit array types with their slots, and instances of record types with their
  attributes. \<open>PyCustomSeq n items\<close> is a sequence object whose \<^verbatim>\<open>sq_length\<close> answers \<open>n\<close>
  (negative: it raised) and whose \<^verbatim>\<open>sq_item\<close> answers \<open>items ! i\<close> (\<open>None\<close>, or past the end: it
  raised); \<open>PyBadIterV\<close> is an iterable whose iteration raises.
  \<open>Uninit\<close> is a slot that \<^verbatim>\<open>s.init\<close> allocated and nothing has written yet.
  Lane values are kept exact: the rounding or wrap-around of the element kind belongs
  to the backend.
\<close>

datatype pyobj =
    PyNone
  | PyBoolV bool
  | PyLongV int
  | PyFloatV real
  | PyListV "pyobj list"
  | PyCustomSeq int "pyobj option list"
  | PyIterV "pyobj list"
  | PyBadIterV
  | Inst ty "pyobj list"
  | StructV ty "(string \<times> pyobj) list"
  | Uninit

text \<open>\<^verbatim>\<open>Py_TYPE(o)\<close>.\<close>

fun Py_TYPE :: "pyobj \<Rightarrow> ty" where
  "Py_TYPE PyNone = PyOther_Type ''NoneType''"
| "Py_TYPE (PyBoolV _) = PyBool_Type"
| "Py_TYPE (PyLongV _) = PyLong_Type"
| "Py_TYPE (PyFloatV _) = PyFloat_Type"
| "Py_TYPE (PyListV _) = PyOther_Type ''list''"
| "Py_TYPE (PyCustomSeq _ _) = PyOther_Type ''sequence''"
| "Py_TYPE (PyIterV _) = PyOther_Type ''generator''"
| "Py_TYPE PyBadIterV = PyOther_Type ''generator''"
| "Py_TYPE (Inst t _) = t"
| "Py_TYPE (StructV t _) = t"
| "Py_TYPE Uninit = PyOther_Type ''uninitialized''"

text \<open>
  The host interpreter's part, taken as parameters: \<open>construct tp arg\<close> is the Python call
  \<^verbatim>\<open>tp(arg)\<close> (\<^verbatim>\<open>NB_VECTORCALL\<close>, \<^verbatim>\<open>dtype(value)\<close>, \<^verbatim>\<open>mask.type()(true)\<close>), \<open>None\<close> when it
  raises; \<open>from_python vt o\<close> is nanobind's caster to the C++ scalar of kind \<open>vt\<close> with
  implicit conversions enabled, \<open>None\<close> when the object does not convert;
  \<open>try_cast_bool o\<close> is \<^verbatim>\<open>nb::try_cast<bool>\<close>, \<open>None\<close> when it answers false.
\<close>

record host =
  construct :: "ty \<Rightarrow> pyobj \<Rightarrow> pyobj option"
  from_python :: "VarType \<Rightarrow> pyobj \<Rightarrow> pyobj option"
  try_cast_bool :: "pyobj \<Rightarrow> bool option"

section \<open>arange\<close>








section \<open>Array construction (init.cpp)\<close>

datatype init_error =
    Kwds_not_accepted
  | Arglist_init_failed
  | Wrong_size_zero
  | Broadcast_failed bool
  | Item_assignment_failed
  | Python_error
  | Iterable_not_convertible
  | Size_undetermined
  | Wrong_size nat int
  | Item_retrieval_failed
  | Invalid_type_in_input
  | Not_an_array_type

text \<open>
  The messages: \<open>Wrong_size_zero\<close> is "Input has the wrong size (expected 0 elements, got
  1)."; \<open>Broadcast_failed refused\<close> is "Broadcast from type '%s' failed.", followed by
  " Refused to perform an inefficient element-by-element copy." when \<open>refused\<close>;
  \<open>Wrong_size k n\<close> is "Input has the wrong size (expected k elements, got n).";
  \<open>Invalid_type_in_input\<close> is "Could not construct from sequence (invalid type in
  input)."; \<open>Python_error\<close> is an exception of the interpreter passing through.
\<close>

subsection \<open>The primitives of the type descriptor\<close>

text \<open>
  Modelled from the spec: the operations of the Type Descriptor's capability table
  (\<^verbatim>\<open>zero()\<close>, \<^verbatim>\<open>set(i, v)\<close>, \<^verbatim>\<open>get(i)\<close>, \<^verbatim>\<open>const_broadcast(count, value, dst)\<close>,
  \<^verbatim>\<open>bulk_import(count, host_ptr, dst)\<close> and the allocation \<^verbatim>\<open>init(count, dst)\<close>), whose
  implementations live outside the two files. An instance is the list of its slots.
  \<open>inst_zero\<close> is "bit-pattern zero for scalars; recursively zero for composites": a
  dynamically sized array of zero bits has no lane. \<open>set_item\<close> and \<open>item\<close> fail
  outside the instance's extent.
\<close>

fun inst_zero :: "ty \<Rightarrow> pyobj" where
  "inst_zero PyBool_Type = PyBoolV False"
| "inst_zero PyLong_Type = PyLongV 0"
| "inst_zero PyFloat_Type = PyFloatV 0"
| "inst_zero (PyOther_Type n) = PyNone"
| "inst_zero (StructType n fs) = PyNone"
| "inst_zero (DrJitType nm s v c) =
     Inst (DrJitType nm s v c)
       (case shape_at s 0 of Fixed n \<Rightarrow> replicate n (inst_zero v) | DRJIT_DYNAMIC \<Rightarrow> [])"

fun set_item :: "pyobj \<Rightarrow> nat \<Rightarrow> pyobj \<Rightarrow> pyobj option" where
  "set_item (Inst t xs) i v = (if i < length xs then Some (Inst t (xs[i := v])) else None)"
| "set_item _ i v = None"

fun item :: "pyobj \<Rightarrow> nat \<Rightarrow> pyobj option" where
  "item (Inst t xs) i = (if i < length xs then Some (xs ! i) else None)"
| "item _ i = None"

definition init_const_prim :: "ty \<Rightarrow> nat \<Rightarrow> pyobj \<Rightarrow> pyobj" where
  "init_const_prim t n v = Inst t (replicate n v)"

definition init_data_prim :: "ty \<Rightarrow> pyobj list \<Rightarrow> pyobj" where
  "init_data_prim t xs = Inst t xs"

definition init_prim :: "ty \<Rightarrow> nat \<Rightarrow> pyobj" where
  "init_prim t n = Inst t (replicate n Uninit)"

subsection \<open>array_init_seq\<close>

text \<open>
  The sequence protocol of an object's type: \<^verbatim>\<open>sq_length\<close> and \<^verbatim>\<open>sq_item\<close> when the type
  has both slots. Tuples, lists and Dr.Jit arrays are sequences.
\<close>

fun sq_protocol :: "pyobj \<Rightarrow> (int \<times> (nat \<Rightarrow> pyobj option)) option" where
  "sq_protocol (PyListV xs) =
     Some (int (length xs), \<lambda>i. if i < length xs then Some (xs ! i) else None)"
| "sq_protocol (Inst t xs) =
     Some (int (length xs), \<lambda>i. if i < length xs then Some (xs ! i) else None)"
| "sq_protocol (PyCustomSeq n items) =
     Some (n, \<lambda>i. if i < length items then items ! i else None)"
| "sq_protocol _ = None"

text \<open>
  \<^verbatim>\<open>FROM_SEQ_IMPL\<close>, lines 238-253: read and convert the elements in order, stop at the
  first that cannot be read or converted. The first component is the list of indices
  passed to \<^verbatim>\<open>sq_item\<close>, the second the converted values (\<open>None\<close>: \<^verbatim>\<open>fail = true\<close>).
\<close>

fun from_seq_impl ::
  "(pyobj \<Rightarrow> pyobj option) \<Rightarrow> (nat \<Rightarrow> pyobj option) \<Rightarrow> nat list \<Rightarrow> nat list \<times> pyobj list option"
where
  "from_seq_impl conv sq_item [] = ([], Some [])"
| "from_seq_impl conv sq_item (i # rest) =
     (case sq_item i of
        None \<Rightarrow> ([i], None)
      | Some o1 \<Rightarrow>
          (case conv o1 of
             None \<Rightarrow> ([i], None)
           | Some x \<Rightarrow>
               (case from_seq_impl conv sq_item rest of
                  (rd, None) \<Rightarrow> (i # rd, None)
                | (rd, Some xs) \<Rightarrow> (i # rd, Some (x # xs)))))"

text \<open>The kinds the \<^verbatim>\<open>switch\<close> of lines 255-264 has a case for.\<close>

fun from_seq_supported :: "VarType \<Rightarrow> bool" where
  "from_seq_supported Bool = True"
| "from_seq_supported Float32 = True"
| "from_seq_supported Float64 = True"
| "from_seq_supported Int32 = True"
| "from_seq_supported UInt32 = True"
| "from_seq_supported Int64 = True"
| "from_seq_supported UInt64 = True"
| "from_seq_supported _ = False"

text \<open>
  The element-wise loop of lines 282-288. The result carries the indices passed to
  \<^verbatim>\<open>sq_item\<close> and either the error raised or the instance after the loop.
\<close>

fun assign_items ::
  "(nat \<Rightarrow> pyobj option) \<Rightarrow> nat list \<Rightarrow> pyobj \<Rightarrow> nat list \<times> (init_error + pyobj)"
where
  "assign_items sq_item [] self = ([], Inr self)"
| "assign_items sq_item (i # rest) self =
     (case sq_item i of
        None \<Rightarrow> ([i], Inl Item_retrieval_failed)
      | Some o1 \<Rightarrow>
          (case set_item self i o1 of
             None \<Rightarrow> ([i], Inl Item_assignment_failed)
           | Some self' \<Rightarrow>
               (case assign_items sq_item rest self' of (rd, r) \<Rightarrow> (i # rd, r))))"

text \<open>
  Lines 217-290, for a sequence whose \<^verbatim>\<open>sq_length\<close> answered \<open>sz\<close>. The result is the
  list of indices passed to \<^verbatim>\<open>sq_item\<close>, in order, and the error raised or the
  initialised instance.
\<close>

definition array_init_seq_body ::
  "host \<Rightarrow> ty \<Rightarrow> ArrayMeta \<Rightarrow> Caps \<Rightarrow> int \<Rightarrow> (nat \<Rightarrow> pyobj option)
     \<Rightarrow> nat list \<times> (init_error + pyobj)"
where
  "array_init_seq_body h self_tp s c sz sq_item =
     (if sz < 0 then ([], Inl Size_undetermined)
      else
        let is_dynamic = (shape_at s 0 = DRJIT_DYNAMIC) in
        if \<not> is_dynamic \<and> shape_at s 0 \<noteq> Fixed (nat sz)
        then ([], Inl (Wrong_size (case shape_at s 0 of Fixed k \<Rightarrow> k | DRJIT_DYNAMIC \<Rightarrow> 0) sz))
        else if sz = 1 \<and> init_const c then
          (case sq_item 0 of
             None \<Rightarrow> ([0], Inl Item_retrieval_failed)
           | Some o1 \<Rightarrow> ([0], Inr (init_const_prim self_tp 1 o1)))
        else if ndim s = 1 \<and> init_data c then
          (if from_seq_supported (type s) then
             (case from_seq_impl (from_python h (type s)) sq_item [0..<nat sz] of
                (rd, None) \<Rightarrow> (rd, Inl Invalid_type_in_input)
              | (rd, Some xs) \<Rightarrow> (rd, Inr (init_data_prim self_tp xs)))
           else ([], Inl Invalid_type_in_input))
        else
          assign_items sq_item [0..<nat sz]
            (if is_dynamic then init_prim self_tp (nat sz) else inst_zero self_tp))"

text \<open>
  \<^verbatim>\<open>array_init_seq(self, s, seq)\<close>, lines 181-291. \<open>Inr None\<close> is \<^verbatim>\<open>return false\<close> (not a
  sequence), \<open>Inr (Some self)\<close> is \<^verbatim>\<open>return true\<close> with the initialised instance. An
  iterable that is no sequence is first materialised by \<^verbatim>\<open>PySequence_List\<close>; the
  recursive call then sees a list, so it runs the body directly.
\<close>

fun array_init_seq :: "host \<Rightarrow> ty \<Rightarrow> pyobj \<Rightarrow> nat list \<times> (init_error + pyobj option)" where
  "array_init_seq h (DrJitType nm s v c) seq =
     (case sq_protocol seq of
        Some (sz, sq_item) \<Rightarrow>
          (case array_init_seq_body h (DrJitType nm s v c) s c sz sq_item of
             (rd, Inl e) \<Rightarrow> (rd, Inl e)
           | (rd, Inr self) \<Rightarrow> (rd, Inr (Some self)))
      | None \<Rightarrow>
          (case seq of
             PyIterV xs \<Rightarrow>
               (case array_init_seq_body h (DrJitType nm s v c) s c (int (length xs))
                       (\<lambda>i. if i < length xs then Some (xs ! i) else None) of
                  (rd, Inl e) \<Rightarrow> (rd, Inl e)
                | (rd, Inr self) \<Rightarrow> (rd, Inr (Some self)))
           | PyBadIterV \<Rightarrow> ([], Inl Iterable_not_convertible)
           | _ \<Rightarrow> ([], Inr None)))"
| "array_init_seq h _ seq = ([], Inl Not_an_array_type)"

text \<open>
  The length \<^verbatim>\<open>array_init_seq\<close> validates: what \<^verbatim>\<open>sq_length\<close> answers for a sequence, the
  number of elements of the materialised list for a plain iterable.
\<close>

definition seq_length :: "pyobj \<Rightarrow> int option" where
  "seq_length seq =
     (case sq_protocol seq of
        Some (n, sq_item) \<Rightarrow> Some n
      | None \<Rightarrow> (case seq of PyIterV xs \<Rightarrow> Some (int (length xs)) | _ \<Rightarrow> None))"

subsection \<open>tp_init_array\<close>

text \<open>\<^verbatim>\<open>supp(tp).value\<close>; \<open>None\<close> is the null pointer that ends the chain of element types.\<close>

fun value_tp :: "ty \<Rightarrow> ty option" where
  "value_tp (DrJitType nm s v c) = Some v"
| "value_tp _ = None"

text \<open>
  The loop of lines 85-92, started at \<open>cur_tp\<close>: does \<open>arg_tp\<close> occur among \<open>cur_tp\<close>, its
  element type, the element type of that, and so on.
\<close>

fun value_chain_has :: "ty \<Rightarrow> ty \<Rightarrow> bool" where
  "value_chain_has arg_tp (DrJitType nm s v c) =
     (arg_tp = DrJitType nm s v c \<or> value_chain_has arg_tp v)"
| "value_chain_has arg_tp cur_tp = (arg_tp = cur_tp)"


text \<open>Lines 80-93: the value of \<^verbatim>\<open>try_sequence_import\<close> after the two tests.\<close>

definition try_sequence_import :: "ArrayMeta \<Rightarrow> ty \<Rightarrow> ty \<Rightarrow> ArrayMeta \<Rightarrow> bool" where
  "try_sequence_import s value arg_tp s_arg =
     (if ndim s = 1 \<and> ndim s_arg = 1 \<and> shape_at s 0 = DRJIT_DYNAMIC
         \<and> shape_at s_arg 0 = DRJIT_DYNAMIC
      then False
      else \<not> value_chain_has arg_tp value)"

text \<open>
  Lines 43-95: what the constructor does with a single argument of type \<open>arg_tp\<close> before it
  reaches the sequence import: copy, cast, host import, or neither, with the value of
  \<^verbatim>\<open>try_sequence_import\<close>.
\<close>

datatype arg_path = Copy | Cast | Host_import | Import_or_broadcast bool

fun classify_arg :: "ty \<Rightarrow> ty \<Rightarrow> arg_path" where
  "classify_arg (DrJitType nm s value c) (DrJitType anm s_arg avalue c_arg) =
     (if DrJitType anm s_arg avalue c_arg = DrJitType nm s value c then Copy
      else if s_arg\<lparr>type := type s\<rparr> = s \<and> cast c then Cast
      else if s\<lparr>backend := JitNone, is_vector := True\<rparr> = s_arg \<and> init_data c \<and> data c_arg
      then Host_import
      else Import_or_broadcast
             (try_sequence_import s value (DrJitType anm s_arg avalue c_arg) s_arg))"
| "classify_arg self_tp arg_tp = Import_or_broadcast True"

text \<open>The loops of lines 161-169 over the indices \<open>0, ..., size - 1\<close>.\<close>

fun fill_plain :: "pyobj \<Rightarrow> nat list \<Rightarrow> pyobj \<Rightarrow> pyobj option" where
  "fill_plain element [] self = Some self"
| "fill_plain element (i # rest) self =
     (case set_item self i element of
        None \<Rightarrow> None
      | Some self' \<Rightarrow> fill_plain element rest self')"

fun fill_col :: "pyobj \<Rightarrow> pyobj \<Rightarrow> nat \<Rightarrow> nat list \<Rightarrow> pyobj \<Rightarrow> pyobj option" where
  "fill_col element zero i [] col = Some col"
| "fill_col element zero i (j # rest) col =
     (case set_item col j (if i = j then element else zero) of
        None \<Rightarrow> None
      | Some col' \<Rightarrow> fill_col element zero i rest col')"

text \<open>
  \<^verbatim>\<open>s.item(self, i)\<close> hands out the column as a reference into the matrix: what the inner
  loop writes to \<open>col\<close> is written to slot \<open>i\<close> of \<open>self\<close>.
\<close>

fun fill_matrix :: "pyobj \<Rightarrow> pyobj \<Rightarrow> nat list \<Rightarrow> nat list \<Rightarrow> pyobj \<Rightarrow> pyobj option" where
  "fill_matrix element zero js [] self = Some self"
| "fill_matrix element zero js (i # rest) self =
     (case item self i of
        None \<Rightarrow> None
      | Some col \<Rightarrow>
          (case fill_col element zero i js col of
             None \<Rightarrow> None
           | Some col' \<Rightarrow>
               (case set_item self i col' of
                  None \<Rightarrow> None
                | Some self' \<Rightarrow> fill_matrix element zero js rest self')))"

text \<open>Lines 146-170, with \<open>zero\<close> the Python float \<open>0.0\<close>.\<close>

definition broadcast_fill :: "ArrayMeta \<Rightarrow> nat \<Rightarrow> pyobj \<Rightarrow> pyobj \<Rightarrow> init_error + pyobj" where
  "broadcast_fill s sz element self =
     (let zero = PyFloatV 0 in
      if is_complex s then
        (case set_item self 0 element of
           None \<Rightarrow> Inl Item_assignment_failed
         | Some s1 \<Rightarrow>
             (case set_item s1 1 zero of
                None \<Rightarrow> Inl Item_assignment_failed
              | Some s2 \<Rightarrow> Inr s2))
      else if is_quaternion s then
        (case set_item self 0 zero of
           None \<Rightarrow> Inl Item_assignment_failed
         | Some s1 \<Rightarrow>
             (case set_item s1 1 zero of
                None \<Rightarrow> Inl Item_assignment_failed
              | Some s2 \<Rightarrow>
                  (case set_item s2 2 zero of
                     None \<Rightarrow> Inl Item_assignment_failed
                   | Some s3 \<Rightarrow>
                       (case set_item s3 3 element of
                          None \<Rightarrow> Inl Item_assignment_failed
                        | Some s4 \<Rightarrow> Inr s4))))
      else if is_matrix s then
        (case fill_matrix element zero [0..<sz] [0..<sz] self of
           None \<Rightarrow> Inl Python_error
         | Some self' \<Rightarrow> Inr self')
      else
        (case fill_plain element [0..<sz] self of
           None \<Rightarrow> Inl Item_assignment_failed
         | Some self' \<Rightarrow> Inr self'))"

text \<open>
  Lines 107-110: the type whose constructor builds the element, \<^verbatim>\<open>s.value\<close>, or for a
  matrix the element type of its columns.
\<close>

definition component_type :: "ArrayMeta \<Rightarrow> ty \<Rightarrow> ty option" where
  "component_type s value = (if is_matrix s then value_tp value else Some value)"

text \<open>
  Lines 112-130: the element is the argument itself when its type is \<^verbatim>\<open>s.value\<close>, else
  the result of calling \<open>value_type\<close> on it (\<open>None\<close>: the call raised).
\<close>

definition broadcast_element :: "host \<Rightarrow> ty \<Rightarrow> ty \<Rightarrow> pyobj \<Rightarrow> pyobj option" where
  "broadcast_element h value value_type arg =
     (if Py_TYPE arg = value then Some arg else construct h value_type arg)"

text \<open>
  Lines 101-172: the scalar broadcast of \<open>arg\<close> into a fresh instance of the type, reached
  with the given value of \<^verbatim>\<open>try_sequence_import\<close>.
\<close>

fun broadcast :: "host \<Rightarrow> ty \<Rightarrow> bool \<Rightarrow> pyobj \<Rightarrow> init_error + pyobj" where
  "broadcast h (DrJitType nm s value c) try_seq arg =
     (let self_tp = DrJitType nm s value c; sz = shape_at s 0 in
      if sz = Fixed 0 then Inl Wrong_size_zero
      else
        case component_type s value of
          None \<Rightarrow> Inl Not_an_array_type
        | Some value_type \<Rightarrow>
            (case broadcast_element h value value_type arg of
               None \<Rightarrow> Inl (Broadcast_failed (\<not> try_seq))
             | Some element \<Rightarrow>
                 (case sz of
                    DRJIT_DYNAMIC \<Rightarrow>
                      if init_const c then Inr (init_const_prim self_tp 1 element)
                      else broadcast_fill s 1 element (init_prim self_tp 1)
                  | Fixed k \<Rightarrow> broadcast_fill s k element (inst_zero self_tp))))"
| "broadcast h _ try_seq arg = Inl Not_an_array_type"

text \<open>The slots of an instance, as \<^verbatim>\<open>nb_inst_copy\<close>, \<^verbatim>\<open>s.cast\<close> and \<^verbatim>\<open>s_arg.data\<close> read them.\<close>

fun slots :: "pyobj \<Rightarrow> pyobj list" where
  "slots (Inst t xs) = xs"
| "slots _ = []"

text \<open>
  \<^verbatim>\<open>tp_init_array(self, args, kwds)\<close>, lines 20-179: \<open>Inr self\<close> is \<^verbatim>\<open>return 0\<close> with the
  initialised instance, \<open>Inl e\<close> is \<^verbatim>\<open>return -1\<close> with a \<^verbatim>\<open>TypeError\<close> carrying the message
  of \<open>e\<close>. The cast and the host import keep the lane values.
\<close>

fun tp_init_array :: "host \<Rightarrow> ty \<Rightarrow> pyobj list \<Rightarrow> bool \<Rightarrow> init_error + pyobj" where
  "tp_init_array h (DrJitType nm s value c) args kwds =
     (let self_tp = DrJitType nm s value c in
      if kwds then Inl Kwds_not_accepted
      else
        case args of
          [] \<Rightarrow> Inr (inst_zero self_tp)
        | [arg] \<Rightarrow>
            (case classify_arg self_tp (Py_TYPE arg) of
               Copy \<Rightarrow> Inr (Inst self_tp (slots arg))
             | Cast \<Rightarrow> Inr (Inst self_tp (slots arg))
             | Host_import \<Rightarrow> Inr (init_data_prim self_tp (slots arg))
             | Import_or_broadcast try_seq \<Rightarrow>
                 if try_seq then
                   (case snd (array_init_seq h self_tp arg) of
                      Inl e \<Rightarrow> Inl e
                    | Inr (Some self) \<Rightarrow> Inr self
                    | Inr None \<Rightarrow> broadcast h self_tp try_seq arg)
                 else broadcast h self_tp try_seq arg)
        | _ \<Rightarrow>
            (case snd (array_init_seq h self_tp (PyListV args)) of
               Inl e \<Rightarrow> Inl e
             | Inr (Some self) \<Rightarrow> Inr self
             | Inr None \<Rightarrow> Inl Arglist_init_failed))"
| "tp_init_array h _ args kwds = Inl Not_an_array_type"

section \<open>full (init.cpp)\<close>


text \<open>
  \<open>Incompatible_shape\<close> is "The provided 'shape' and 'dtype' parameters are incompatible.",
  \<open>Unsupported_dtype\<close> the type error "Unsupported dtype.", \<open>Full_python_error\<close> an exception
  raised by a Python call (\<^verbatim>\<open>dtype(value)\<close>), \<open>Full_cast_error\<close> the failure of
  \<^verbatim>\<open>nb::cast<int>\<close> on an integer outside the range of a C \<^verbatim>\<open>int\<close>.
  \<open>Full_undefined_behaviour\<close> is the read of \<^verbatim>\<open>shape[0]\<close> from an empty shape.
\<close>

text \<open>
  Lines 385-401: the shape \<^verbatim>\<open>full(dtype, value, size)\<close> derives from a single extent: the
  type's fixed extents, \<open>size\<close> for a dynamic last axis and 1 for any other dynamic axis.
\<close>

fun size_shape :: "ty \<Rightarrow> nat \<Rightarrow> nat list" where
  "size_shape (DrJitType nm s v c) sz =
     map (\<lambda>i. case shape_at s i of
                 Fixed k \<Rightarrow> k
               | DRJIT_DYNAMIC \<Rightarrow> (if i = ndim s - 1 then sz else 1))
       [0..<ndim s]"
| "size_shape _ sz = [sz]"











fun is_PyLong :: "pyobj \<Rightarrow> bool" where
  "is_PyLong (PyLongV k) = True"
| "is_PyLong _ = False"



section \<open>switch and dispatch (switch.cpp)\<close>

type_synonym kwargs = "(string \<times> pyobj) list"

type_synonym callable = "pyobj list \<Rightarrow> kwargs \<Rightarrow> pyobj option"

text \<open>
  Keyword arguments are a Python dictionary: an association list with distinct keys, in
  insertion order. A callable is a function of the positional and keyword arguments;
  \<open>None\<close> is a raised exception.
\<close>

datatype switch_error =
    Mask_not_scalar
  | Index_not_drjit
  | Index_not_uint32_1D
  | Instances_not_instance_array
  | Domain_missing
  | Incompatible_results
  | Python_exception

text \<open>
  \<open>Mask_not_scalar\<close> is "the provided 'mask' argument must be scalar if 'index' is scalar";
  \<open>Python_exception\<close> is a \<^verbatim>\<open>nb::python_error\<close> caught at lines 146-148 and re-raised as
  "encountered an exception (see above)"; \<open>Incompatible_results\<close> is the exception
  \<^verbatim>\<open>check_compatibility\<close> raises.
\<close>

subsection \<open>extract_mask\<close>

text \<open>Lines 39-47: the type of a trailing positional argument makes it the mask.\<close>

fun is_mask_type :: "ty \<Rightarrow> bool" where
  "is_mask_type (DrJitType nm s v c) = (backend s \<noteq> JitNone \<and> ndim s = 1 \<and> type s = Bool)"
| "is_mask_type PyBool_Type = True"
| "is_mask_type _ = False"

text \<open>
  \<^verbatim>\<open>extract_mask(args, kwargs)\<close>, lines 25-56. The result is the mask (\<open>None\<close>: the invalid
  object) with the argument list and the dictionary as the function leaves them. Deleting
  the key and storing it again puts it last in the dictionary's order.
\<close>

definition extract_mask ::
  "host \<Rightarrow> pyobj list \<Rightarrow> kwargs \<Rightarrow> switch_error + (pyobj option \<times> pyobj list \<times> kwargs)"
where
  "extract_mask h args kwargs =
     (case map_of kwargs ''active'' of
        Some mask_o \<Rightarrow>
          (case construct h (Py_TYPE mask_o) (PyBoolV True) of
             None \<Rightarrow> Inl Python_exception
           | Some t \<Rightarrow>
               Inr (Some mask_o, args, filter (\<lambda>kv. fst kv \<noteq> ''active'') kwargs @ [(''active'', t)]))
      | None \<Rightarrow>
          if args \<noteq> [] \<and> is_mask_type (Py_TYPE (last args)) then
            (case construct h (Py_TYPE (last args)) (PyBoolV True) of
               None \<Rightarrow> Inl Python_exception
             | Some t \<Rightarrow> Inr (Some (last args), butlast args @ [t], kwargs))
          else Inr (None, args, kwargs))"

subsection \<open>The call state, the helpers and the backend\<close>

type_synonym handle = nat

text \<open>
  What the code does to the resources it manages, in order: the \<^verbatim>\<open>State\<close> is allocated
  (\<^verbatim>\<open>new State\<close>), read or written through its pointer, and deleted (\<^verbatim>\<open>delete (State *)
  ptr\<close>); a trace handle gains a reference (inside \<^verbatim>\<open>collect_indices\<close>, if it acquires any)
  or loses one (\<^verbatim>\<open>ad_var_dec_ref\<close>); a callable is invoked with the given \<open>self\<close>, positional
  and keyword arguments.
\<close>

datatype event =
    State_new
  | State_access
  | State_delete
  | Inc_ref handle
  | Dec_ref handle
  | Invoke nat "pyobj list" kwargs

text \<open>\<^verbatim>\<open>struct State\<close> of lines 61-74 (the callables do not change and are a parameter).\<close>

record State =
  args_o :: "pyobj list \<times> kwargs"
  rv_o :: "pyobj option"

text \<open>
  The helpers declared in \<^verbatim>\<open>misc.h\<close>, taken as parameters: \<open>collect_args\<close> and \<open>collect_rv\<close>
  are \<^verbatim>\<open>collect_indices\<close> on the argument tuple and on a result, \<open>update_args\<close> and
  \<open>update_rv\<close> are \<^verbatim>\<open>update_indices\<close> (\<open>None\<close>: the helper raised; \<open>update_rv\<close> receives \<open>None\<close>
  when \<^verbatim>\<open>state->rv_o\<close> is still the invalid object); \<open>check_compatibility\<close> answers
  whether two results are compatible (it raises when they are not); \<open>collect_acquires\<close>
  says whether \<^verbatim>\<open>collect_indices\<close> takes a reference on each handle it appends.
\<close>

record misc =
  collect_args :: "pyobj list \<times> kwargs \<Rightarrow> handle list option"
  update_args :: "pyobj list \<times> kwargs \<Rightarrow> handle list \<Rightarrow> (pyobj list \<times> kwargs) option"
  collect_rv :: "pyobj \<Rightarrow> handle list option"
  update_rv :: "pyobj option \<Rightarrow> handle list \<Rightarrow> pyobj option"
  check_compatibility :: "pyobj \<Rightarrow> pyobj \<Rightarrow> bool"
  collect_acquires :: bool

text \<open>
  What the backend does with one \<^verbatim>\<open>ad_call\<close>, taken as a parameter: the re-entries of the
  per-group callback, in the backend's order, each with its \<open>self\<close> and the Index Vector
  it passes; then either an exception of its own (\<open>returns = None\<close>) or the \<^verbatim>\<open>done\<close> flag and
  the handles it leaves in the caller's \<^verbatim>\<open>rv_i\<close>, one owned reference each; the content of
  \<^verbatim>\<open>rv_i\<close> if the call ends by an exception; and how many times it invokes the cleanup
  callback after the caller has returned.
\<close>

record backend_run =
  reentries :: "(nat \<times> handle list) list"
  returns :: "(bool \<times> handle list) option"
  rv_on_raise :: "handle list"
  later_cleanups :: nat

text \<open>The references \<^verbatim>\<open>collect_indices\<close> takes on the handles it appends, if it takes any.\<close>

definition acquire :: "misc \<Rightarrow> handle list \<Rightarrow> event list" where
  "acquire m hs = (if collect_acquires m then map Inc_ref hs else [])"


text \<open>\<^verbatim>\<open>~dr_index_vector\<close>, lines 18-21: one \<^verbatim>\<open>ad_var_dec_ref\<close> per entry, in order.\<close>

definition dr_index_vector_dtor :: "handle list \<Rightarrow> event list" where
  "dr_index_vector_dtor v = map Dec_ref v"

text \<open>Python's \<^verbatim>\<open>seq[i]\<close> on a list or tuple: a negative index counts from the end.\<close>

definition py_getitem :: "'a list \<Rightarrow> int \<Rightarrow> 'a option" where
  "py_getitem xs i =
     (let n = int (length xs); j = (if i < 0 then i + n else i)
      in if 0 \<le> j \<and> j < n then Some (xs ! nat j) else None)"

subsection \<open>The per-group callback and the general path\<close>

text \<open>
  The part of the callback that lines 107-124 and 187-206 share, given how the callable
  is found and invoked for \<open>self\<close> (\<open>None\<close>: the lookup or the call raised). The result is
  the events, and the error raised or the new state with the handles appended to the
  backend's \<^verbatim>\<open>rv_i\<close>.
\<close>

definition group_func ::
  "misc \<Rightarrow> (nat \<Rightarrow> pyobj list \<Rightarrow> kwargs \<Rightarrow> pyobj option) \<Rightarrow> State \<Rightarrow> nat \<Rightarrow> handle list
     \<Rightarrow> event list \<times> (switch_error + State \<times> handle list)"
where
  "group_func m invoke st self args_i =
     (case update_args m (args_o st) args_i of
        None \<Rightarrow> ([State_access], Inl Python_exception)
      | Some a \<Rightarrow>
          (case invoke self (fst a) (snd a) of
             None \<Rightarrow> ([State_access, State_access, Invoke self (fst a) (snd a)],
                       Inl Python_exception)
           | Some result \<Rightarrow>
               if rv_o st \<noteq> None \<and> \<not> check_compatibility m result (the (rv_o st)) then
                 ([State_access, State_access, Invoke self (fst a) (snd a), State_access],
                  Inl Incompatible_results)
               else
                 (case collect_rv m result of
                    None \<Rightarrow>
                      ([State_access, State_access, Invoke self (fst a) (snd a), State_access,
                        State_access], Inl Python_exception)
                  | Some hs \<Rightarrow>
                      ([State_access, State_access, Invoke self (fst a) (snd a), State_access,
                        State_access] @ acquire m hs,
                       Inr (st\<lparr>args_o := a, rv_o := Some result\<rparr>, hs)))))"

text \<open>Line 117: \<^verbatim>\<open>state.callables_o[index](*state.args_o[0], **state.args_o[1])\<close>.\<close>

definition switch_invoke :: "callable list \<Rightarrow> nat \<Rightarrow> pyobj list \<Rightarrow> kwargs \<Rightarrow> pyobj option" where
  "switch_invoke callables self args kwargs =
     (case py_getitem callables (int self) of
        None \<Rightarrow> None
      | Some f \<Rightarrow> f args kwargs)"

text \<open>
  Lines 195-199: the callable receives the instance bound to the native handle \<open>self\<close> as
  its first argument; \<open>bind\<close> is \<^verbatim>\<open>nb_type_put\<close>.
\<close>

definition dispatch_invoke ::
  "(nat \<Rightarrow> pyobj) \<Rightarrow> callable \<Rightarrow> nat \<Rightarrow> pyobj list \<Rightarrow> kwargs \<Rightarrow> pyobj option"
where
  "dispatch_invoke bind f self args kwargs = f (bind self # args) kwargs"

text \<open>
  The re-entries an \<^verbatim>\<open>ad_call\<close> makes, in the backend's order; an exception of the callback
  ends the call.
\<close>

fun run_groups ::
  "(State \<Rightarrow> nat \<Rightarrow> handle list \<Rightarrow> event list \<times> (switch_error + State \<times> handle list))
     \<Rightarrow> (nat \<times> handle list) list \<Rightarrow> State \<Rightarrow> event list \<times> (switch_error + State)"
where
  "run_groups func [] st = ([], Inr st)"
| "run_groups func ((self, args_i) # gs) st =
     (case func st self args_i of
        (ev, Inl e) \<Rightarrow> (ev, Inl e)
      | (ev, Inr (st', hs)) \<Rightarrow>
          (case run_groups func gs st' of (ev', r) \<Rightarrow> (ev @ ev', r)))"

text \<open>
  Lines 126-145 and 208-227, from \<^verbatim>\<open>new State\<close> to the return: the events up to the end of
  the function (the destructor of \<^verbatim>\<open>rv_i\<close> runs on every way out; \<^verbatim>\<open>args_i\<close> is a plain
  vector and its destructor releases nothing), and the result or the exception.
\<close>

definition call_general ::
  "misc \<Rightarrow> backend_run \<Rightarrow> (nat \<Rightarrow> pyobj list \<Rightarrow> kwargs \<Rightarrow> pyobj option)
     \<Rightarrow> pyobj list \<times> kwargs \<Rightarrow> event list \<times> (switch_error + pyobj)"
where
  "call_general m br invoke a =
     (case collect_args m a of
        None \<Rightarrow> ([State_new, State_access] @ dr_index_vector_dtor [], Inl Python_exception)
      | Some args_i \<Rightarrow>
          (case run_groups (group_func m invoke) (reentries br) \<lparr>args_o = a, rv_o = None\<rparr> of
             (ev, Inl e) \<Rightarrow>
               ([State_new, State_access] @ acquire m args_i @ ev
                  @ dr_index_vector_dtor (rv_on_raise br), Inl e)
           | (ev, Inr st) \<Rightarrow>
               (case returns br of
                  None \<Rightarrow>
                    ([State_new, State_access] @ acquire m args_i @ ev
                       @ dr_index_vector_dtor (rv_on_raise br), Inl Python_exception)
                | Some (completed, rv_i) \<Rightarrow>
                    (case update_rv m (rv_o st) rv_i of
                       None \<Rightarrow>
                         ([State_new, State_access] @ acquire m args_i @ ev @ [State_access]
                            @ dr_index_vector_dtor rv_i, Inl Python_exception)
                     | Some result \<Rightarrow>
                         ([State_new, State_access] @ acquire m args_i @ ev @ [State_access]
                            @ (if completed then [State_delete] else [])
                            @ dr_index_vector_dtor rv_i, Inr result)))))"


subsection \<open>switch_impl and dispatch_impl\<close>

text \<open>
  \<^verbatim>\<open>switch_impl(index_, callables, args_, kwargs)\<close>, lines 59-153. \<open>add_one\<close> is the Python
  addition \<^verbatim>\<open>index_ + nb::int_(1)\<close> (\<open>None\<close>: it raised); \<open>index0\<close> and \<open>args0\<close> are the
  source's \<^verbatim>\<open>index_\<close> and \<^verbatim>\<open>args_\<close>.
\<close>

definition switch_impl ::
  "host \<Rightarrow> misc \<Rightarrow> backend_run \<Rightarrow> (pyobj \<Rightarrow> pyobj option) \<Rightarrow> pyobj \<Rightarrow> callable list
     \<Rightarrow> pyobj list \<Rightarrow> kwargs \<Rightarrow> event list \<times> (switch_error + pyobj)"
where
  "switch_impl h m br add_one index0 callables args0 kwargs =
     (case extract_mask h args0 kwargs of
        Inl e \<Rightarrow> ([], Inl e)
      | Inr (mask_o, args, kwargs') \<Rightarrow>
          (case index0 of
             PyLongV i \<Rightarrow>
               (case (case mask_o of None \<Rightarrow> Some True | Some mk \<Rightarrow> try_cast_bool h mk) of
                  None \<Rightarrow> ([], Inl Mask_not_scalar)
                | Some mask_b \<Rightarrow>
                    if \<not> mask_b then ([], Inr PyNone)
                    else
                      (case py_getitem callables i of
                         None \<Rightarrow> ([], Inl Python_exception)
                       | Some f \<Rightarrow>
                           (case f args kwargs' of
                              None \<Rightarrow> ([Invoke (nat (if i < 0 then i + int (length callables) else i))
                                          args kwargs'], Inl Python_exception)
                            | Some r \<Rightarrow> ([Invoke (nat (if i < 0 then i + int (length callables) else i))
                                          args kwargs'], Inr r))))
           | _ \<Rightarrow>
               (case add_one index0 of
                  None \<Rightarrow> ([], Inl Python_exception)
                | Some index \<Rightarrow>
                    (case Py_TYPE index of
                       DrJitType nm s v c \<Rightarrow>
                         if backend s = JitNone \<or> type s \<noteq> UInt32 \<or> ndim s \<noteq> 1
                         then ([], Inl Index_not_uint32_1D)
                         else call_general m br (switch_invoke callables) (args, kwargs')
                     | _ \<Rightarrow> ([], Inl Index_not_drjit)))))"

text \<open>
  \<^verbatim>\<open>dispatch_impl(instances, callable, args_, kwargs)\<close>, lines 155-237. \<open>domain\<close> is the
  \<^verbatim>\<open>Domain\<close> attribute of the instance array type when it is a string.
\<close>

definition dispatch_impl ::
  "host \<Rightarrow> misc \<Rightarrow> backend_run \<Rightarrow> (nat \<Rightarrow> pyobj) \<Rightarrow> string option \<Rightarrow> pyobj \<Rightarrow> callable
     \<Rightarrow> pyobj list \<Rightarrow> kwargs \<Rightarrow> event list \<times> (switch_error + pyobj)"
where
  "dispatch_impl h m br bind domain instances f args0 kwargs =
     (case Py_TYPE instances of
        DrJitType nm s v c \<Rightarrow>
          if \<not> is_class s \<or> ndim s \<noteq> 1 then ([], Inl Instances_not_instance_array)
          else if domain = None then ([], Inl Domain_missing)
          else
            (case extract_mask h args0 kwargs of
               Inl e \<Rightarrow> ([], Inl e)
             | Inr (mask_o, args, kwargs') \<Rightarrow>
                 call_general m br (dispatch_invoke bind f) (args, kwargs'))
      | _ \<Rightarrow> ([], Inl Instances_not_instance_array))"

subsection \<open>What the claims about switch and dispatch speak of\<close>







text \<open>
  Two invocations come out alike: both raise, or both return the same value.
\<close>

fun same_outcome :: "switch_error + pyobj \<Rightarrow> switch_error + pyobj \<Rightarrow> bool" where
  "same_outcome (Inr r) (Inr r') = (r = r')"
| "same_outcome (Inl e) (Inl e') = True"
| "same_outcome _ _ = False"

section \<open>Sample descriptors\<close>

text \<open>
  Concrete descriptors on which the theorems below are evaluated: a JIT-compiled 1-D
  dynamically sized array type of a given element kind, and a registry that answers
  every lookup with such a type.
\<close>

definition jit_leaf :: "string \<Rightarrow> VarType \<Rightarrow> ty \<Rightarrow> ty" where
  "jit_leaf nm t v =
     DrJitType nm
       \<lparr>backend = LLVM, type = t, ndim = 1, is_vector = False, is_complex = False,
        is_quaternion = False, is_matrix = False, is_class = False,
        shape = [DRJIT_DYNAMIC]\<rparr>
       v
       \<lparr>cast = True, init_data = True, data = False, init_const = True,
        init_counter = True\<rparr>"


text \<open>
  A host whose type calls convert between Python scalars the way \<^verbatim>\<open>int\<close>, \<^verbatim>\<open>float\<close> and
  \<^verbatim>\<open>bool\<close> do on small numbers, whose casters accept every Python scalar and whose cast
  to \<^verbatim>\<open>bool\<close> accepts \<^verbatim>\<open>True\<close> and \<^verbatim>\<open>False\<close> only. A Dr.Jit type called on a Python boolean
  gives the one-lane array that broadcasts it.
\<close>

fun sample_construct :: "ty \<Rightarrow> pyobj \<Rightarrow> pyobj option" where
  "sample_construct PyFloat_Type (PyFloatV x) = Some (PyFloatV x)"
| "sample_construct PyFloat_Type (PyLongV k) = Some (PyFloatV (of_int k))"
| "sample_construct PyFloat_Type (PyBoolV b) = Some (PyFloatV (if b then 1 else 0))"
| "sample_construct PyLong_Type (PyLongV k) = Some (PyLongV k)"
| "sample_construct PyLong_Type (PyBoolV b) = Some (PyLongV (if b then 1 else 0))"
| "sample_construct PyBool_Type (PyBoolV b) = Some (PyBoolV b)"
| "sample_construct PyBool_Type (PyLongV k) = Some (PyBoolV (k \<noteq> 0))"
| "sample_construct (DrJitType nm s v c) (PyBoolV b) = Some (Inst (DrJitType nm s v c) [PyBoolV b])"
| "sample_construct _ _ = None"

fun sample_from_python :: "VarType \<Rightarrow> pyobj \<Rightarrow> pyobj option" where
  "sample_from_python vt (PyFloatV x) = Some (PyFloatV x)"
| "sample_from_python vt (PyLongV k) = Some (PyLongV k)"
| "sample_from_python vt (PyBoolV b) = Some (PyBoolV b)"
| "sample_from_python vt _ = None"

fun sample_try_cast_bool :: "pyobj \<Rightarrow> bool option" where
  "sample_try_cast_bool (PyBoolV b) = Some b"
| "sample_try_cast_bool _ = None"

definition sample_host :: host where
  "sample_host =
     \<lparr>construct = sample_construct, from_python = sample_from_python,
      try_cast_bool = sample_try_cast_bool\<rparr>"

text \<open>A fixed-size array type of \<open>n\<close> Python floats that is not JIT-compiled.\<close>

definition scalar_array :: "string \<Rightarrow> nat \<Rightarrow> ty" where
  "scalar_array nm n =
     DrJitType nm
       \<lparr>backend = JitNone, type = Float32, ndim = 1, is_vector = False, is_complex = False,
        is_quaternion = False, is_matrix = False, is_class = False,
        shape = [Fixed n]\<rparr>
       PyFloat_Type
       \<lparr>cast = True, init_data = False, data = True, init_const = False,
        init_counter = False\<rparr>"









text \<open>
  Sample helpers for \<^verbatim>\<open>switch\<close>: a value is a flat list of JIT variables, each written as
  the integer of its trace handle. Collecting reads the handles off, updating writes the
  given handles in, two results are compatible when they hold equally many variables,
  and the argument tuple has no variables. Three callables: the first returns two
  variables, the second returns its positional arguments, the third raises. Two
  backends: one re-enters for the targets 0 and 1 and answers "done", one re-enters for
  the target 1, answers "not done" and invokes the cleanup callback once later.
\<close>

fun sample_handles :: "pyobj \<Rightarrow> handle list" where
  "sample_handles (PyListV xs) = map (\<lambda>x. case x of PyLongV k \<Rightarrow> nat k | _ \<Rightarrow> 0) xs"
| "sample_handles _ = []"

definition sample_misc :: misc where
  "sample_misc =
     \<lparr>collect_args = (\<lambda>a. Some []),
      update_args = (\<lambda>a i. Some a),
      collect_rv = (\<lambda>r. Some (sample_handles r)),
      update_rv = (\<lambda>r i. case r of None \<Rightarrow> None
                           | Some x \<Rightarrow> Some (PyListV (map (\<lambda>k. PyLongV (int k)) i))),
      check_compatibility = (\<lambda>r r'. length (sample_handles r) = length (sample_handles r')),
      collect_acquires = False\<rparr>"

definition sample_f0 :: callable where
  "sample_f0 args kwargs = Some (PyListV [PyLongV 11, PyLongV 12])"


definition sample_f1 :: callable where
  "sample_f1 args kwargs = Some (PyListV args)"

definition sample_run :: backend_run where
  "sample_run =
     \<lparr>reentries = [(0, []), (1, [])], returns = Some (True, [21, 22]), rv_on_raise = [],
      later_cleanups = 0\<rparr>"

definition sample_add_one :: "pyobj \<Rightarrow> pyobj option" where
  "sample_add_one x = (case x of Inst t xs \<Rightarrow> Some (Inst t xs) | _ \<Rightarrow> None)"





definition jit_mask :: pyobj where
  "jit_mask = Inst (jit_leaf ''Bool'' Bool PyBool_Type) [PyBoolV True, PyBoolV False]"

section \<open>arange: count and lanes\<close>













section \<open>array_init_seq: the length check\<close>

lemma assign_items_not_wrong_size:
  "assign_items it idx self = (rd, r) \<Longrightarrow> r \<noteq> Inl (Wrong_size k n)"
  by (induction idx arbitrary: self rd) (auto split: option.splits prod.splits)

lemma body_dynamic_not_wrong_size:
  assumes "shape_at s 0 = DRJIT_DYNAMIC" "array_init_seq_body h T s c sz it = (rd, r)"
  shows "r \<noteq> Inl (Wrong_size k n)"
  using assms assign_items_not_wrong_size [of it _ _ rd r k n]
  by (auto simp: array_init_seq_body_def Let_def split: option.splits prod.splits if_splits)

lemma body_wrong_size:
  assumes "0 \<le> sz" "shape_at s 0 = Fixed k" "int k \<noteq> sz"
  shows "array_init_seq_body h T s c sz it = ([], Inl (Wrong_size k sz))"
  using assms by (auto simp: array_init_seq_body_def)

lemma body_empty_dynamic:
  assumes "shape_at s 0 = DRJIT_DYNAMIC" "ndim s = 1 \<and> init_data c \<longrightarrow> from_seq_supported (type s)"
  shows "array_init_seq_body h T s c 0 it = ([], Inr (Inst T []))"
  using assms by (auto simp: array_init_seq_body_def init_data_prim_def init_prim_def)

lemma init_seq_wrong_size:
  assumes "seq_length seq = Some n" "0 \<le> n" "shape_at s 0 = Fixed k" "int k \<noteq> n"
  shows "array_init_seq h (DrJitType nm s v c) seq = ([], Inl (Wrong_size k n))"
proof (cases "sq_protocol seq")
  case None
  with assms(1) obtain xs where "seq = PyIterV xs" "n = int (length xs)"
    by (auto simp: seq_length_def split: pyobj.splits)
  then show ?thesis using assms body_wrong_size [of n s k h "DrJitType nm s v c" c] by simp
next
  case (Some p)
  then obtain it where "sq_protocol seq = Some (n, it)"
    using assms(1) by (cases p) (auto simp: seq_length_def)
  then show ?thesis using assms body_wrong_size [of n s k h "DrJitType nm s v c" c it] by simp
qed

lemma init_seq_dynamic_not_wrong_size:
  assumes "shape_at s 0 = DRJIT_DYNAMIC"
  shows "snd (array_init_seq h (DrJitType nm s v c) seq) \<noteq> Inl (Wrong_size k n)"
proof (cases "sq_protocol seq")
  case None
  show ?thesis
  proof (cases seq)
    case (PyIterV xs)
    obtain rd r where b: "array_init_seq_body h (DrJitType nm s v c) s c (int (length xs))
        (\<lambda>i. if i < length xs then Some (xs ! i) else None) = (rd, r)" by (cases "array_init_seq_body h (DrJitType nm s v c) s c (int (length xs))
        (\<lambda>i. if i < length xs then Some (xs ! i) else None)")
    with body_dynamic_not_wrong_size [OF assms]
    have "r \<noteq> Inl (Wrong_size k n)" by blast
    then show ?thesis using PyIterV b by (cases r) auto
  qed (use None in auto)
next
  case (Some p)
  obtain sz it where p: "p = (sz, it)" by (cases p)
  obtain rd r where b: "array_init_seq_body h (DrJitType nm s v c) s c sz it = (rd, r)"
    by (cases "array_init_seq_body h (DrJitType nm s v c) s c sz it")
  with body_dynamic_not_wrong_size [OF assms]
  have "r \<noteq> Inl (Wrong_size k n)" by blast
  then show ?thesis using Some p b by (cases r) auto
qed


lemma classify_list: "classify_arg T (PyOther_Type n) = Import_or_broadcast True"
  by (cases T) simp_all

lemma init_seq_empty_dynamic:
  assumes "shape_at s 0 = DRJIT_DYNAMIC" "ndim s = 1 \<and> init_data c \<longrightarrow> from_seq_supported (type s)"
  shows "array_init_seq h (DrJitType nm s v c) (PyListV []) = ([], Inr (Some (Inst (DrJitType nm s v c) [])))"
  using body_empty_dynamic [OF assms, of h "DrJitType nm s v c"] by simp

text \<open>
  C9 (as amended). A sequence import compares the sequence length with the target's
  leading extent before any call of \<^verbatim>\<open>sq_item\<close>: with a fixed extent \<open>k\<close> and a length
  \<open>n \<noteq> k\<close> it raises the size mismatch "expected k elements, got n" and has read no
  element, and so the constructor fails, from a sequence argument as from an argument
  list; with a dynamic extent it never raises a size mismatch. A dynamically sized array
  built from an empty sequence succeeds and has no lane, provided that a 1-D type with
  bulk import has one of the element kinds the import converts (Bool, Float32, Float64,
  Int32, UInt32, Int64, UInt64).
\<close>

theorem array_init_seq_validates_length:
  "(seq_length seq = Some n \<and> 0 \<le> n \<and> shape_at s 0 = Fixed k \<and> int k \<noteq> n \<longrightarrow>
      array_init_seq h (DrJitType nm s v c) seq = ([], Inl (Wrong_size k n)))
   \<and> (shape_at s 0 = Fixed k \<and> k \<noteq> length xs \<longrightarrow>
      tp_init_array h (DrJitType nm s v c) [PyListV xs] False
        = Inl (Wrong_size k (int (length xs))))
   \<and> (shape_at s 0 = Fixed k \<and> k \<noteq> length xs \<and> 2 \<le> length xs \<longrightarrow>
      tp_init_array h (DrJitType nm s v c) xs False = Inl (Wrong_size k (int (length xs))))
   \<and> (shape_at s 0 = DRJIT_DYNAMIC \<longrightarrow>
      snd (array_init_seq h (DrJitType nm s v c) seq) \<noteq> Inl (Wrong_size k n))
   \<and> (shape_at s 0 = DRJIT_DYNAMIC
        \<and> (ndim s = 1 \<and> init_data c \<longrightarrow> from_seq_supported (type s)) \<longrightarrow>
      array_init_seq h (DrJitType nm s v c) (PyListV [])
        = ([], Inr (Some (Inst (DrJitType nm s v c) [])))
      \<and> tp_init_array h (DrJitType nm s v c) [PyListV []] False
        = Inr (Inst (DrJitType nm s v c) []))"
proof (intro conjI impI)
  assume "seq_length seq = Some n \<and> 0 \<le> n \<and> shape_at s 0 = Fixed k \<and> int k \<noteq> n"
  then show "array_init_seq h (DrJitType nm s v c) seq = ([], Inl (Wrong_size k n))"
    using init_seq_wrong_size by blast
next
  assume a: "shape_at s 0 = Fixed k \<and> k \<noteq> length xs"
  have "seq_length (PyListV xs) = Some (int (length xs))" by (simp add: seq_length_def)
  with a have "array_init_seq h (DrJitType nm s v c) (PyListV xs)
      = ([], Inl (Wrong_size k (int (length xs))))"
    by (intro init_seq_wrong_size) auto
  then show "tp_init_array h (DrJitType nm s v c) [PyListV xs] False
      = Inl (Wrong_size k (int (length xs)))"
    by (simp add: classify_list)
next
  assume a: "shape_at s 0 = Fixed k \<and> k \<noteq> length xs \<and> 2 \<le> length xs"
  have "seq_length (PyListV xs) = Some (int (length xs))" by (simp add: seq_length_def)
  with a have e: "array_init_seq h (DrJitType nm s v c) (PyListV xs)
      = ([], Inl (Wrong_size k (int (length xs))))"
    by (intro init_seq_wrong_size) auto
  from a obtain x y zs where "xs = x # y # zs"
    by (cases xs; cases "tl xs") auto
  with e show "tp_init_array h (DrJitType nm s v c) xs False
      = Inl (Wrong_size k (int (length xs)))"
    by simp
next
  assume "shape_at s 0 = DRJIT_DYNAMIC"
  then show "snd (array_init_seq h (DrJitType nm s v c) seq) \<noteq> Inl (Wrong_size k n)"
    by (rule init_seq_dynamic_not_wrong_size)
next
  assume a: "shape_at s 0 = DRJIT_DYNAMIC
        \<and> (ndim s = 1 \<and> init_data c \<longrightarrow> from_seq_supported (type s))"
  then show e: "array_init_seq h (DrJitType nm s v c) (PyListV [])
        = ([], Inr (Some (Inst (DrJitType nm s v c) [])))"
    using init_seq_empty_dynamic by blast
  then show "tp_init_array h (DrJitType nm s v c) [PyListV []] False
        = Inr (Inst (DrJitType nm s v c) [])"
    by (simp add: classify_list)
qed

text \<open>
  The theorem at a fixed-size-3 array given two elements (as a list, as two arguments
  and as a generator) and at a 1-D dynamic array given the empty list.
\<close>

theorem array_init_seq_validates_length_witness:
  "tp_init_array sample_host (scalar_array ''Array3f'' 3) [PyListV [PyFloatV 1, PyFloatV 2]] False
     = Inl (Wrong_size 3 2)
   \<and> tp_init_array sample_host (scalar_array ''Array3f'' 3) [PyFloatV 1, PyFloatV 2] False
     = Inl (Wrong_size 3 2)
   \<and> array_init_seq sample_host (scalar_array ''Array3f'' 3) (PyIterV [PyFloatV 1, PyFloatV 2])
     = ([], Inl (Wrong_size 3 2))
   \<and> array_init_seq sample_host (jit_leaf ''Float'' Float32 PyFloat_Type) (PyListV [])
     = ([], Inr (Some (Inst (jit_leaf ''Float'' Float32 PyFloat_Type) [])))
   \<and> tp_init_array sample_host (jit_leaf ''Float'' Float32 PyFloat_Type) [PyListV []] False
     = Inr (Inst (jit_leaf ''Float'' Float32 PyFloat_Type) [])"
  using
    array_init_seq_validates_length [where h = sample_host and nm = "''Array3f''"
      and s = "\<lparr>backend = JitNone, type = Float32, ndim = 1, is_vector = False, is_complex = False,
        is_quaternion = False, is_matrix = False, is_class = False, shape = [Fixed 3]\<rparr>"
      and v = PyFloat_Type
      and c = "\<lparr>cast = True, init_data = False, data = True, init_const = False,
        init_counter = False\<rparr>"
      and seq = "PyIterV [PyFloatV 1, PyFloatV 2]" and n = 2 and k = 3
      and xs = "[PyFloatV 1, PyFloatV 2]"]
    array_init_seq_validates_length [where h = sample_host and nm = "''Float''"
      and s = "\<lparr>backend = LLVM, type = Float32, ndim = 1, is_vector = False, is_complex = False,
        is_quaternion = False, is_matrix = False, is_class = False, shape = [DRJIT_DYNAMIC]\<rparr>"
      and v = PyFloat_Type
      and c = "\<lparr>cast = True, init_data = True, data = False, init_const = True,
        init_counter = True\<rparr>"]
  by (simp add: scalar_array_def jit_leaf_def shape_at_def seq_length_def)

text \<open>
  C9 as stated fails for a 1-D dynamically sized array with bulk import whose element
  kind has no case in the conversion switch (here Float16): the empty list is refused
  with "invalid type in input".
\<close>

theorem array_init_seq_empty_counterexample:
  "array_init_seq sample_host (jit_leaf ''Float16'' Float16 PyFloat_Type) (PyListV [])
     = ([], Inl Invalid_type_in_input)
   \<and> tp_init_array sample_host (jit_leaf ''Float16'' Float16 PyFloat_Type) [PyListV []] False
     = Inl Invalid_type_in_input"
  by (simp add: jit_leaf_def shape_at_def array_init_seq_body_def)

section \<open>tp_init_array: the scalar broadcast\<close>


















section \<open>tp_init_array: when the sequence import is tried\<close>








section \<open>full: every lane reads back the value\<close>




lemma size_shape_length: "length (size_shape (DrJitType nm s v c) n) = ndim s"
  by simp























section \<open>switch and dispatch: the mask and the scalar selector\<close>

lemma map_of_filter_reinsert:
  "map_of (filter (\<lambda>kv. fst kv \<noteq> k0) kw @ [(k0, t)]) = (map_of kw)(k0 \<mapsto> t)"
proof (rule ext)
  fix k
  show "map_of (filter (\<lambda>kv. fst kv \<noteq> k0) kw @ [(k0, t)]) k = ((map_of kw)(k0 \<mapsto> t)) k"
  proof (cases "k = k0")
    case True
    have "map_of (filter (\<lambda>kv. fst kv \<noteq> k0) kw) k0 = None"
      by (induction kw) auto
    then show ?thesis using True by (simp add: map_add_def)
  next
    case False
    have "map_of (filter (\<lambda>kv. fst kv \<noteq> k0) kw) k = map_of kw k"
      using False by (induction kw) auto
    then show ?thesis using False by (simp add: map_add_def split: option.splits)
  qed
qed

lemma extract_mask_cases:
  assumes "extract_mask h args kwargs = Inr (Some mask_o, args', kwargs')"
  shows "\<exists>t. construct h (Py_TYPE mask_o) (PyBoolV True) = Some t
           \<and> (if map_of kwargs ''active'' \<noteq> None
               then map_of kwargs ''active'' = Some mask_o \<and> args' = args
                    \<and> kwargs' = filter (\<lambda>kv. fst kv \<noteq> ''active'') kwargs @ [(''active'', t)]
               else args \<noteq> [] \<and> mask_o = last args \<and> is_mask_type (Py_TYPE mask_o)
                    \<and> args' = butlast args @ [t] \<and> kwargs' = kwargs)"
  using assms by (auto simp: extract_mask_def split: if_splits option.splits)

lemma fast_path_events:
  assumes "extract_mask h args kwargs = Inr (mask_o, args', kwargs')"
  shows "list_all (\<lambda>e. \<exists>j. e = Invoke j args' kwargs')
           (fst (switch_impl h m br add_one (PyLongV i) callables args kwargs))"
  using assms by (auto simp: switch_impl_def split: option.splits)

lemma switch_general_path:
  assumes "extract_mask h args kwargs = Inr (mask_o, args', kwargs')"
    and "\<not> is_PyLong index0" "add_one index0 = Some index1"
    and "Py_TYPE index1 = DrJitType nm s v c" "backend s \<noteq> JitNone" "type s = UInt32" "ndim s = 1"
  shows "switch_impl h m br add_one index0 callables args kwargs
     = call_general m br (switch_invoke callables) (args', kwargs')"
  using assms by (cases index0) (auto simp: switch_impl_def)

lemma dispatch_general_path:
  assumes "extract_mask h args kwargs = Inr (mask_o, args', kwargs')"
    and "Py_TYPE instances = DrJitType nm s v c" "is_class s" "ndim s = 1" "domain \<noteq> None"
  shows "dispatch_impl h m br bind domain instances f args kwargs
     = call_general m br (dispatch_invoke bind f) (args', kwargs')"
  using assms by (auto simp: dispatch_impl_def)

text \<open>
  C10. When \<^verbatim>\<open>extract_mask\<close> finds a mask, as the \<^verbatim>\<open>active\<close> keyword argument or as a
  trailing positional argument of type \<^verbatim>\<open>bool\<close> or of a 1-D JIT boolean array type, the
  slot of the mask holds \<^verbatim>\<open>type(mask)(True)\<close> afterwards and every other argument is as
  it was: the positional arguments keep their places, the other keyword arguments their
  values. These are the arguments both functions forward: to the callable on the fast
  path of \<^verbatim>\<open>switch\<close>, into the captured \<^verbatim>\<open>State\<close> on the general path of \<^verbatim>\<open>switch\<close> and of
  \<^verbatim>\<open>dispatch\<close>.
\<close>

theorem extract_mask_replaces_mask:
  assumes "extract_mask h args kwargs = Inr (Some mask_o, args', kwargs')"
  shows "\<exists>t. construct h (Py_TYPE mask_o) (PyBoolV True) = Some t
           \<and> (if map_of kwargs ''active'' \<noteq> None
               then map_of kwargs ''active'' = Some mask_o \<and> args' = args
                    \<and> kwargs' = filter (\<lambda>kv. fst kv \<noteq> ''active'') kwargs @ [(''active'', t)]
                    \<and> map_of kwargs' = (map_of kwargs)(''active'' \<mapsto> t)
               else args \<noteq> [] \<and> mask_o = last args \<and> is_mask_type (Py_TYPE mask_o)
                    \<and> args' = butlast args @ [t] \<and> length args' = length args
                    \<and> (\<forall>i<length args - 1. args' ! i = args ! i)
                    \<and> args' ! (length args - 1) = t
                    \<and> kwargs' = kwargs)
           \<and> list_all (\<lambda>e. \<exists>j. e = Invoke j args' kwargs')
               (fst (switch_impl h m br add_one (PyLongV i) callables args kwargs))
           \<and> (\<not> is_PyLong index0 \<and> add_one index0 = Some index1
               \<and> Py_TYPE index1 = DrJitType nm s v c \<and> backend s \<noteq> JitNone \<and> type s = UInt32
               \<and> ndim s = 1 \<longrightarrow>
               switch_impl h m br add_one index0 callables args kwargs
                 = call_general m br (switch_invoke callables) (args', kwargs'))
           \<and> (Py_TYPE instances = DrJitType inm si vi ci \<and> is_class si \<and> ndim si = 1
               \<and> domain \<noteq> None \<longrightarrow>
               dispatch_impl h m br bind domain instances f args kwargs
                 = call_general m br (dispatch_invoke bind f) (args', kwargs'))"
proof -
  from extract_mask_cases [OF assms] obtain t where
    t: "construct h (Py_TYPE mask_o) (PyBoolV True) = Some t"
    and c: "if map_of kwargs ''active'' \<noteq> None
               then map_of kwargs ''active'' = Some mask_o \<and> args' = args
                    \<and> kwargs' = filter (\<lambda>kv. fst kv \<noteq> ''active'') kwargs @ [(''active'', t)]
               else args \<noteq> [] \<and> mask_o = last args \<and> is_mask_type (Py_TYPE mask_o)
                    \<and> args' = butlast args @ [t] \<and> kwargs' = kwargs"
    by blast
  have A: "if map_of kwargs ''active'' \<noteq> None
               then map_of kwargs ''active'' = Some mask_o \<and> args' = args
                    \<and> kwargs' = filter (\<lambda>kv. fst kv \<noteq> ''active'') kwargs @ [(''active'', t)]
                    \<and> map_of kwargs' = (map_of kwargs)(''active'' \<mapsto> t)
               else args \<noteq> [] \<and> mask_o = last args \<and> is_mask_type (Py_TYPE mask_o)
                    \<and> args' = butlast args @ [t] \<and> length args' = length args
                    \<and> (\<forall>i<length args - 1. args' ! i = args ! i)
                    \<and> args' ! (length args - 1) = t
                    \<and> kwargs' = kwargs"
  proof (cases "map_of kwargs ''active'' \<noteq> None")
    case True
    then show ?thesis using c map_of_filter_reinsert [of "''active''" kwargs t] by simp
  next
    case False
    with c have a: "args \<noteq> []" "args' = butlast args @ [t]" by auto
    have "\<forall>i<length args - 1. args' ! i = args ! i"
      using a by (simp add: nth_append nth_butlast)
    moreover have "args' ! (length args - 1) = t" using a by (simp add: nth_append)
    moreover have "length args' = length args" using a by simp
    ultimately show ?thesis using False c by auto
  qed
  have B: "list_all (\<lambda>e. \<exists>j. e = Invoke j args' kwargs')
               (fst (switch_impl h m br add_one (PyLongV i) callables args kwargs))"
    by (rule fast_path_events [OF assms])
  have C: "\<not> is_PyLong index0 \<and> add_one index0 = Some index1
               \<and> Py_TYPE index1 = DrJitType nm s v c \<and> backend s \<noteq> JitNone \<and> type s = UInt32
               \<and> ndim s = 1 \<longrightarrow>
               switch_impl h m br add_one index0 callables args kwargs
                 = call_general m br (switch_invoke callables) (args', kwargs')"
    using switch_general_path [OF assms, where ?index0.0 = index0 and add_one = add_one
        and ?index1.0 = index1 and nm = nm and s = s and v = v and c = c] by simp
  have D: "Py_TYPE instances = DrJitType inm si vi ci \<and> is_class si \<and> ndim si = 1
               \<and> domain \<noteq> None \<longrightarrow>
               dispatch_impl h m br bind domain instances f args kwargs
                 = call_general m br (dispatch_invoke bind f) (args', kwargs')"
    using dispatch_general_path [OF assms, where instances = instances and nm = inm
        and s = si and v = vi and c = ci and domain = domain] by simp
  show ?thesis
    using t A B C D by (intro exI [of _ t] conjI) assumption+
qed

text \<open>
  The theorem at a keyword mask, at a trailing Python boolean and at a trailing 1-D JIT
  boolean array.
\<close>

theorem extract_mask_replaces_mask_witness:
  "extract_mask sample_host [PyLongV 3] [(''active'', PyBoolV False), (''x'', PyLongV 1)]
     = Inr (Some (PyBoolV False), [PyLongV 3], [(''x'', PyLongV 1), (''active'', PyBoolV True)])
   \<and> extract_mask sample_host [PyLongV 3, PyBoolV False] [(''x'', PyLongV 1)]
     = Inr (Some (PyBoolV False), [PyLongV 3, PyBoolV True], [(''x'', PyLongV 1)])
   \<and> extract_mask sample_host [PyLongV 3, jit_mask] []
     = Inr (Some jit_mask,
            [PyLongV 3, Inst (jit_leaf ''Bool'' Bool PyBool_Type) [PyBoolV True]], [])"
proof -
  have 1: "extract_mask sample_host [PyLongV 3] [(''active'', PyBoolV False), (''x'', PyLongV 1)]
     = Inr (Some (PyBoolV False), [PyLongV 3], [(''x'', PyLongV 1), (''active'', PyBoolV True)])"
    by (simp add: extract_mask_def sample_host_def)
  have 2: "extract_mask sample_host [PyLongV 3, PyBoolV False] [(''x'', PyLongV 1)]
     = Inr (Some (PyBoolV False), [PyLongV 3, PyBoolV True], [(''x'', PyLongV 1)])"
    by (simp add: extract_mask_def sample_host_def)
  have 3: "extract_mask sample_host [PyLongV 3, jit_mask] []
     = Inr (Some jit_mask,
            [PyLongV 3, Inst (jit_leaf ''Bool'' Bool PyBool_Type) [PyBoolV True]], [])"
    by (simp add: extract_mask_def sample_host_def jit_mask_def jit_leaf_def)
  show ?thesis
    using 1 2 3 extract_mask_replaces_mask [OF 1] extract_mask_replaces_mask [OF 2]
      extract_mask_replaces_mask [OF 3]
    by simp
qed


text \<open>
  C5. With a plain integer as selector: a mask that was found must cast to a C++ \<^verbatim>\<open>bool\<close>,
  else the call fails with "the provided 'mask' argument must be scalar if 'index' is
  scalar"; with the mask false the result is \<^verbatim>\<open>None\<close> and no callable is invoked; otherwise
  \<^verbatim>\<open>callables[i]\<close> is invoked exactly once, directly, with the arguments \<^verbatim>\<open>extract_mask\<close>
  left (the given ones when there is no mask), and its result is the result.
\<close>

theorem switch_scalar_index:
  assumes "extract_mask h args kwargs = Inr (mask_o, args', kwargs')"
  shows "(mask_o = None \<longrightarrow> args' = args \<and> kwargs' = kwargs)
       \<and> (\<forall>mk. mask_o = Some mk \<and> try_cast_bool h mk = None \<longrightarrow>
            switch_impl h m br add_one (PyLongV i) callables args kwargs
              = ([], Inl Mask_not_scalar))
       \<and> (\<forall>mk. mask_o = Some mk \<and> try_cast_bool h mk = Some False \<longrightarrow>
            switch_impl h m br add_one (PyLongV i) callables args kwargs = ([], Inr PyNone))
       \<and> (\<forall>f. (mask_o = None \<or> (\<exists>mk. mask_o = Some mk \<and> try_cast_bool h mk = Some True))
              \<and> py_getitem callables i = Some f \<longrightarrow>
            (\<exists>j. fst (switch_impl h m br add_one (PyLongV i) callables args kwargs)
                    = [Invoke j args' kwargs'])
            \<and> snd (switch_impl h m br add_one (PyLongV i) callables args kwargs)
                = (case f args' kwargs' of None \<Rightarrow> Inl Python_exception | Some r \<Rightarrow> Inr r))"
proof (intro conjI allI impI)
  assume "mask_o = None"
  then show "args' = args" "kwargs' = kwargs"
    using assms by (auto simp: extract_mask_def split: option.splits if_splits)
next
  fix mk assume "mask_o = Some mk \<and> try_cast_bool h mk = None"
  then show "switch_impl h m br add_one (PyLongV i) callables args kwargs
              = ([], Inl Mask_not_scalar)"
    using assms by (simp add: switch_impl_def)
next
  fix mk assume "mask_o = Some mk \<and> try_cast_bool h mk = Some False"
  then show "switch_impl h m br add_one (PyLongV i) callables args kwargs = ([], Inr PyNone)"
    using assms by (simp add: switch_impl_def)
next
  fix f
  assume a: "(mask_o = None \<or> (\<exists>mk. mask_o = Some mk \<and> try_cast_bool h mk = Some True))
              \<and> py_getitem callables i = Some f"
  then have b: "(case mask_o of None \<Rightarrow> Some True | Some mk \<Rightarrow> try_cast_bool h mk) = Some True"
    by auto
  show "\<exists>j. fst (switch_impl h m br add_one (PyLongV i) callables args kwargs)
                    = [Invoke j args' kwargs']"
    using assms a b by (cases "f args' kwargs'") (simp_all add: switch_impl_def)
  show "snd (switch_impl h m br add_one (PyLongV i) callables args kwargs)
                = (case f args' kwargs' of None \<Rightarrow> Inl Python_exception | Some r \<Rightarrow> Inr r)"
    using assms a b by (cases "f args' kwargs'") (simp_all add: switch_impl_def)
qed

text \<open>
  The theorem at \<open>switch(1, [f0, f1], 7)\<close>, which is \<open>f1(7)\<close>; with the mask \<^verbatim>\<open>False\<close>, which
  is \<^verbatim>\<open>None\<close> without a call; and with a JIT array as mask, which is the error.
\<close>

theorem switch_scalar_index_witness:
  "switch_impl sample_host sample_misc sample_run sample_add_one (PyLongV 1)
      [sample_f0, sample_f1] [PyLongV 7] []
     = ([Invoke 1 [PyLongV 7] []], Inr (PyListV [PyLongV 7]))
   \<and> switch_impl sample_host sample_misc sample_run sample_add_one (PyLongV 1)
      [sample_f0, sample_f1] [PyLongV 7, PyBoolV False] []
     = ([], Inr PyNone)
   \<and> switch_impl sample_host sample_misc sample_run sample_add_one (PyLongV 1)
      [sample_f0, sample_f1] [PyLongV 7, jit_mask] []
     = ([], Inl Mask_not_scalar)"
proof -
  have 1: "extract_mask sample_host [PyLongV 7] [] = Inr (None, [PyLongV 7], [])"
    by (simp add: extract_mask_def)
  have 2: "extract_mask sample_host [PyLongV 7, PyBoolV False] []
      = Inr (Some (PyBoolV False), [PyLongV 7, PyBoolV True], [])"
    by (simp add: extract_mask_def sample_host_def)
  have 3: "extract_mask sample_host [PyLongV 7, jit_mask] []
      = Inr (Some jit_mask, [PyLongV 7, Inst (jit_leaf ''Bool'' Bool PyBool_Type) [PyBoolV True]], [])"
    by (simp add: extract_mask_def sample_host_def jit_mask_def jit_leaf_def)
  have g: "py_getitem [sample_f0, sample_f1] 1 = Some sample_f1"
    by (simp add: py_getitem_def)
  note T1 = switch_scalar_index [OF 1, of sample_misc sample_run sample_add_one 1
      "[sample_f0, sample_f1]"]
  note T2 = switch_scalar_index [OF 2, of sample_misc sample_run sample_add_one 1
      "[sample_f0, sample_f1]"]
  note T3 = switch_scalar_index [OF 3, of sample_misc sample_run sample_add_one 1
      "[sample_f0, sample_f1]"]
  have a: "switch_impl sample_host sample_misc sample_run sample_add_one (PyLongV 1)
      [sample_f0, sample_f1] [PyLongV 7] []
     = ([Invoke 1 [PyLongV 7] []], Inr (PyListV [PyLongV 7]))"
    by (simp add: switch_impl_def 1 g sample_f1_def)
  have b: "switch_impl sample_host sample_misc sample_run sample_add_one (PyLongV 1)
      [sample_f0, sample_f1] [PyLongV 7, PyBoolV False] [] = ([], Inr PyNone)"
    using T2 by (simp add: sample_host_def)
  have c: "switch_impl sample_host sample_misc sample_run sample_add_one (PyLongV 1)
      [sample_f0, sample_f1] [PyLongV 7, jit_mask] [] = ([], Inl Mask_not_scalar)"
    using T3 by (simp add: sample_host_def jit_mask_def)
  show ?thesis using a b c T1 by simp
qed

section \<open>switch and dispatch: the call state and the reference counts\<close>























section \<open>switch and dispatch: the groups and their order\<close>














lemma same_outcome_errors: "same_outcome (Inl e) (Inl e')"
  by simp












end
